theory Spec2Isabelle
  imports Main "HOL-Library.Char_ord" "HOL-Library.List_Lexorder"
begin

section \<open>Strings\<close>

text \<open>
  Format labels, file names and URLs are modelled as ASCII strings. On ASCII input
  JavaScript's \<^verbatim>\<open>String.prototype.toLowerCase\<close> maps the letters A..Z (codes 65..90)
  to a..z (codes 97..122) and leaves every other character alone.
\<close>

definition isUpper :: "char \<Rightarrow> bool" where
  "isUpper c = (65 \<le> (of_char c :: nat) \<and> (of_char c :: nat) \<le> 90)"

definition toLowerChar :: "char \<Rightarrow> char" where
  "toLowerChar c = (if isUpper c then char_of ((of_char c :: nat) + 32) else c)"

definition toLowerCase :: "string \<Rightarrow> string" where
  "toLowerCase s = map toLowerChar s"

text \<open>
  Two characters are the same up to case when they are equal or one is an upper-case
  letter and the other the lower-case letter 32 code points above it. A label is a
  casing of a text when both have the same length and agree up to case position by
  position. This is stated without \<^const>\<open>toLowerCase\<close>.
\<close>

definition sameUpToCase :: "char \<Rightarrow> char \<Rightarrow> bool" where
  "sameUpToCase c d =
     (c = d \<or> (isUpper c \<and> (of_char d :: nat) = of_char c + 32)
            \<or> (isUpper d \<and> (of_char c :: nat) = of_char d + 32))"

definition casingOf :: "string \<Rightarrow> string \<Rightarrow> bool" where
  "casingOf lab tx = list_all2 sameUpToCase lab tx"

section \<open>Format normalisation and file extensions\<close>

text \<open>
  \<^verbatim>\<open>
  function normalizeFormat(format) {
    switch (format.toLowerCase()) {
      case ".cbz": return "cbz";
      case "pdf (hq)":
      case "pdf (hd)": return "pdf_hd";
      case "download": return "pdf";
      default: return format.toLowerCase();
    }
  }
  \<close>
\<close>

definition normalizeFormat :: "string \<Rightarrow> string" where
  "normalizeFormat format =
     (if toLowerCase format = ''.cbz'' then ''cbz''
      else if toLowerCase format = ''pdf (hq)'' then ''pdf_hd''
      else if toLowerCase format = ''pdf (hd)'' then ''pdf_hd''
      else if toLowerCase format = ''download'' then ''pdf''
      else toLowerCase format)"

text \<open>
  \<^verbatim>\<open>
  function getExtension(format) {
    switch (format.toLowerCase()) {
      case "pdf_hd": return " (hd).pdf";
      default: return util.format(".%s", format);
    }
  }
  \<close>
  The switch is on the lower-cased token, the default branch formats the token as it
  was passed.
\<close>

definition getExtension :: "string \<Rightarrow> string" where
  "getExtension format =
     (if toLowerCase format = ''pdf_hd'' then '' (hd).pdf''
      else ''.'' @ format)"

text \<open>
  \<^verbatim>\<open>String.prototype.trim\<close> on ASCII input: leading and trailing tab, line feed, vertical
  tab, form feed, carriage return and space are removed.
\<close>

definition isSpace :: "char \<Rightarrow> bool" where
  "isSpace c = ((of_char c :: nat) \<in> {9, 10, 11, 12, 13, 32})"

definition trim :: "string \<Rightarrow> string" where
  "trim s = rev (dropWhile isSpace (rev (dropWhile isSpace s)))"

section \<open>Data model\<close>

text \<open>
  The order documents are JSON. A field that the source reads through \<^verbatim>\<open>?.\<close>, \<^verbatim>\<open>??\<close> or a
  truthiness test is optional here (\<open>None\<close> is \<^verbatim>\<open>undefined\<close>). The platform of a download
  is kept as a JSON value, because \<^verbatim>\<open>flatten\<close> inspects it with \<^verbatim>\<open>Array.isArray\<close>.
\<close>

datatype jval = JUndefined | JString string | JArray "jval list"

record url_rec =
  web :: "string option"

text \<open>One entry of \<^verbatim>\<open>download_struct\<close> (a format variant).\<close>

record variant =
  name :: "string option"
  url :: "url_rec option"
  human_size :: string
  sha1 :: "string option"
  md5 :: "string option"

text \<open>One entry of \<^verbatim>\<open>downloads\<close> (a download option).\<close>

record download_option =
  platform :: jval
  download_struct :: "variant list option"

record subproduct =
  human_name :: string
  downloads :: "download_option list option"

text \<open>An order; \<open>product_human_name\<close> is \<^verbatim>\<open>order.product.human_name\<close>.\<close>

record order =
  gamekey :: string
  product_human_name :: string
  subproducts :: "subproduct list option"

text \<open>
  An element of \<^verbatim>\<open>downloads\<close> in \<^verbatim>\<open>downloadBundles\<close>:
  \<^verbatim>\<open>{ bundle: bundleName, download: filteredDownload, name: subproduct.human_name }\<close>;
  the fields \<^verbatim>\<open>bundle\<close> and \<^verbatim>\<open>name\<close> are called \<open>bundleName\<close> and \<open>itemName\<close> here.
\<close>

record task =
  bundleName :: string
  download :: variant
  itemName :: string

text \<open>An element of \<^verbatim>\<open>downloadErrors\<close>.\<close>

record download_error =
  webUrl :: "string option"
  filePath :: string
  errStatus :: nat
  errStatusText :: string

datatype error =
    ReferenceError string
  | TypeError string
  | Errno string
  | StreamError string
  | HttpError string nat

text \<open>
  The response of \<^verbatim>\<open>fetch\<close>. The body is a stream: it either delivers all its bytes, or
  delivers some bytes and then fails (the connection drops).
\<close>

datatype body = Complete string | Broken string error

record response =
  status :: nat
  statusText :: string
  body :: body

text \<open>\<^verbatim>\<open>Response.ok\<close>: the status is in the range 200 to 299.\<close>

definition ok :: "response \<Rightarrow> bool" where
  "ok r = (200 \<le> status r \<and> status r \<le> 299)"

datatype fetch_result = Rejects error | Responds response

text \<open>
  The remote side: what a \<^verbatim>\<open>fetch\<close> of a URL gives. \<^verbatim>\<open>fetch(undefined)\<close> rejects with a
  \<^verbatim>\<open>TypeError\<close> before any request is made.
\<close>

type_synonym net = "string \<Rightarrow> fetch_result"

definition fetch :: "net \<Rightarrow> string option \<Rightarrow> fetch_result" where
  "fetch nt u = (case u of None \<Rightarrow> Rejects (TypeError ''Failed to parse URL'') | Some a \<Rightarrow> nt a)"

text \<open>
  What the program prints, one constructor per message. The dumps of the \<^verbatim>\<open>options\<close>
  object (at the start of \<^verbatim>\<open>main\<close> and under \<^verbatim>\<open>--debug\<close>) and the progress lines of
  \<^verbatim>\<open>fetchOrders\<close> are left out.
\<close>

datatype message =
    NoBundlesSelected
  | NoDownloadsForBundle string string "string list"
  | NoDownloadsFound string
  | Downloading task nat nat
  | SkippedExisting task nat nat
  | Done
  | FailedToDownload "string option" nat string
  | InvalidFormatProvided
  | InvalidFormatSelected
  | Starting
  | DownloadErrors "download_error list"
  | CompletedSuccessfully
  | ErrorOccurred error

text \<open>
  The state a run works on: the regular files of the file system (path to content), the
  directories created, the module-level array \<^verbatim>\<open>downloadErrors\<close>, the URLs requested
  with \<^verbatim>\<open>fetch\<close> by \<^verbatim>\<open>downloadBook\<close> in order, and the console.
  A path that is present holds a readable regular file; creating a directory and opening
  a file for writing always succeed.
\<close>

record world =
  files :: "string \<rightharpoonup> string"
  dirs :: "string set"
  downloadErrors :: "download_error list"
  requested :: "string list"
  console :: "message list"

definition say :: "message \<Rightarrow> world \<Rightarrow> world" where
  "say m w = w\<lparr>console := console w @ [m]\<rparr>"

text \<open>
  The library functions the code calls and this theory does not define: \<^verbatim>\<open>sanitize-filename\<close>,
  \<^verbatim>\<open>path.resolve\<close> and the hex digest of \<^verbatim>\<open>crypto.createHash\<close>.
\<close>

datatype hash_kind = SHA1 | MD5

record libs =
  sanitizeFilename :: "string \<Rightarrow> string"
  path_resolve :: "string \<Rightarrow> string \<Rightarrow> string"
  createHash :: "hash_kind \<Rightarrow> string \<Rightarrow> string"

text \<open>The resolved \<^verbatim>\<open>options\<close> object, as far as the download code reads it.\<close>

record options =
  downloadFolder :: string
  format :: string

definition SUPPORTED_FORMATS :: "string list" where
  "SUPPORTED_FORMATS =
     [''epub'', ''mobi'', ''pdf'', ''pdf_hd'', ''prc'', ''cbz'', ''zip'', ''txt'', ''csv'', ''iso'']"

definition ALLOWED_FORMATS :: "string list" where
  "ALLOWED_FORMATS = sort (SUPPORTED_FORMATS @ [''all''])"

text \<open>JavaScript truthiness of an optional string: present and not empty.\<close>

definition truthy :: "string option \<Rightarrow> bool" where
  "truthy s = (case s of None \<Rightarrow> False | Some t \<Rightarrow> t \<noteq> [])"

section \<open>Order detail resolution\<close>

text \<open>
  \<^verbatim>\<open>
  function flatten(list) {
    return list.reduce((a, b) => a.concat(Array.isArray(b) ? flatten(b) : b), []);
  }
  \<close>
  \<open>flattenFrom a list\<close> is the reduction started from the accumulator \<open>a\<close>; an
  element that is not an array is appended as it is.
\<close>

fun flattenFrom :: "jval list \<Rightarrow> jval list \<Rightarrow> jval list" where
  "flattenFrom a [] = a"
| "flattenFrom a (JArray bs # rest) = flattenFrom (a @ flattenFrom [] bs) rest"
| "flattenFrom a (JUndefined # rest) = flattenFrom (a @ [JUndefined]) rest"
| "flattenFrom a (JString b # rest) = flattenFrom (a @ [JString b]) rest"

definition flatten :: "jval list \<Rightarrow> jval list" where
  "flatten list = flattenFrom [] list"

text \<open>
  The filter at the end of \<^verbatim>\<open>fetchOrders\<close>:
  \<^verbatim>\<open>
  const filteredOrders = detailedOrders.filter((order) => {
    const platforms =
      order?.subproducts?.flatMap(
        (subproduct) =>
          subproduct?.downloads?.map((download) => download?.platform) ?? [],
      ) ?? [];
    return flatten(platforms).includes("ebook");
  });
  \<close>
\<close>

definition platforms :: "order \<Rightarrow> jval list" where
  "platforms ord =
     (case subproducts ord of
        None \<Rightarrow> []
      | Some sps \<Rightarrow>
          concat (map (\<lambda>sp. case downloads sp of None \<Rightarrow> [] | Some ds \<Rightarrow> map platform ds) sps))"

definition retained :: "order \<Rightarrow> bool" where
  "retained ord = (JString ''ebook'' \<in> set (flatten (platforms ord)))"

definition filteredOrders :: "order list \<Rightarrow> order list" where
  "filteredOrders detailedOrders = filter retained detailedOrders"

text \<open>
  The requests of \<^verbatim>\<open>fetchOrders\<close>: an answer of the order API is a rejected request or
  a status with the parsed JSON body. The listing gives the gamekeys, one detail request
  per gamekey gives the order document. Any answer that is not ok makes the whole call
  throw. The detail requests run through a limiter; when all succeed,
  \<^verbatim>\<open>async.concat\<close> gives the documents in the order of the listing, which is the order
  taken here also for the first failure.
\<close>

datatype 'a http = HttpRejects error | HttpResponds nat 'a

record api =
  listing :: "string list http"
  details :: "string \<Rightarrow> order http"

definition statusOk :: "nat \<Rightarrow> bool" where
  "statusOk st = (200 \<le> st \<and> st \<le> 299)"

fun fetchDetails :: "(string \<Rightarrow> order http) \<Rightarrow> string list \<Rightarrow> error + order list" where
  "fetchDetails dt [] = Inr []"
| "fetchDetails dt (k # ks) =
     (case dt k of
        HttpRejects e \<Rightarrow> Inl e
      | HttpResponds st ord \<Rightarrow>
          if \<not> statusOk st then Inl (HttpError ''Could not fetch orders, unknown error, status code'' st)
          else (case fetchDetails dt ks of Inl e \<Rightarrow> Inl e | Inr ords \<Rightarrow> Inr (ord # ords)))"

definition fetchOrders :: "api \<Rightarrow> error + order list" where
  "fetchOrders a =
     (case listing a of
        HttpRejects e \<Rightarrow> Inl e
      | HttpResponds st ordersData \<Rightarrow>
          if \<not> statusOk st then Inl (HttpError ''Could not fetch orders, unknown error, status code'' st)
          else (case fetchDetails (details a) ordersData of
                  Inl e \<Rightarrow> Inl e
                | Inr detailedOrders \<Rightarrow> Inr (filteredOrders detailedOrders)))"

section \<open>Asset resolution\<close>

text \<open>
  The callback of \<^verbatim>\<open>downloadStructs.filter\<close> in \<^verbatim>\<open>downloadBundles\<close>, run over the
  list from left to right. It also pushes to \<^verbatim>\<open>bundleFormats\<close>, so the array is
  passed along and returned.
  \<^verbatim>\<open>
  if (!download?.name || !download?.url) { return false; }
  const normalizedFormat = normalizeFormat(download.name);
  if (!bundleFormats.includes(normalizedFormat) &&
      SUPPORTED_FORMATS.includes(normalizedFormat)) {
    bundleFormats.push(normalizedFormat);
  }
  return options.format === "all" || normalizedFormat === options.format;
  \<close>
\<close>

fun filteredDownloadStructs ::
  "string \<Rightarrow> variant list \<Rightarrow> string list \<Rightarrow> variant list \<times> string list" where
  "filteredDownloadStructs fmt [] bundleFormats = ([], bundleFormats)"
| "filteredDownloadStructs fmt (d # ds) bundleFormats =
     (case name d of
        None \<Rightarrow> filteredDownloadStructs fmt ds bundleFormats
      | Some lab \<Rightarrow>
          if lab = [] \<or> url d = None then filteredDownloadStructs fmt ds bundleFormats
          else
            let normalizedFormat = normalizeFormat lab;
                bundleFormats' =
                  (if normalizedFormat \<notin> set bundleFormats \<and>
                      normalizedFormat \<in> set SUPPORTED_FORMATS
                   then bundleFormats @ [normalizedFormat] else bundleFormats);
                (kept, bundleFormats'') = filteredDownloadStructs fmt ds bundleFormats'
            in (if fmt = ''all'' \<or> normalizedFormat = fmt then d # kept else kept,
                bundleFormats''))"

text \<open>
  \<^verbatim>\<open>
  const filteredDownloads = subproduct.downloads.filter((download) => {
    return download.platform === "ebook";
  });
  const downloadStructs = filteredDownloads.flatMap(
    (download) => download?.download_struct ?? [],
  );
  \<close>
\<close>

definition downloadStructs :: "download_option list \<Rightarrow> variant list" where
  "downloadStructs ds =
     concat (map (\<lambda>d. case download_struct d of None \<Rightarrow> [] | Some vs \<Rightarrow> vs)
                 (filter (\<lambda>d. platform d = JString ''ebook'') ds))"

text \<open>
  The loop over \<^verbatim>\<open>bundle.subproducts\<close>, passing \<^verbatim>\<open>bundleDownloads\<close> and
  \<^verbatim>\<open>bundleFormats\<close> along. \<^verbatim>\<open>subproduct.downloads.filter\<close> is not guarded: a subproduct
  without \<^verbatim>\<open>downloads\<close> throws a \<^verbatim>\<open>TypeError\<close>.
\<close>

fun resolveSubproducts ::
  "string \<Rightarrow> string \<Rightarrow> subproduct list \<Rightarrow> task list \<Rightarrow> string list
     \<Rightarrow> error + task list \<times> string list" where
  "resolveSubproducts fmt bName [] bundleDownloads bundleFormats =
     Inr (bundleDownloads, bundleFormats)"
| "resolveSubproducts fmt bName (sp # sps) bundleDownloads bundleFormats =
     (case downloads sp of
        None \<Rightarrow> Inl (TypeError ''Cannot read properties of undefined (reading filter)'')
      | Some ds \<Rightarrow>
          let (kept, bundleFormats') =
                filteredDownloadStructs fmt (downloadStructs ds) bundleFormats
          in resolveSubproducts fmt bName sps
               (bundleDownloads @
                  map (\<lambda>d. \<lparr>bundleName = bName, download = d, itemName = human_name sp\<rparr>) kept)
               bundleFormats')"

text \<open>
  The loop over \<^verbatim>\<open>bundles\<close>. The result is the array \<^verbatim>\<open>downloads\<close> together
  with the messages printed on the way; \<^verbatim>\<open>bundle.subproducts\<close> is not guarded either.
  \<^verbatim>\<open>
  if (!bundleDownloads.length) {
    console.log(colors.red("No downloads found matching the right format (%s) for bundle (%s),
      available formats: (%s)"), options.format, bundleName, bundleFormats.sort().join(", "));
    continue;
  }
  downloads.push(...bundleDownloads);
  \<close>
\<close>

fun resolveBundles :: "string \<Rightarrow> order list \<Rightarrow> (error + task list) \<times> message list" where
  "resolveBundles fmt [] = (Inr [], [])"
| "resolveBundles fmt (b # bs) =
     (case subproducts b of
        None \<Rightarrow> (Inl (TypeError ''bundle.subproducts is not iterable''), [])
      | Some sps \<Rightarrow>
          (case resolveSubproducts fmt (product_human_name b) sps [] [] of
             Inl e \<Rightarrow> (Inl e, [])
           | Inr (bundleDownloads, bundleFormats) \<Rightarrow>
               let said =
                     (if bundleDownloads = []
                      then [NoDownloadsForBundle fmt (product_human_name b) (sort bundleFormats)]
                      else [])
               in (case resolveBundles fmt bs of
                     (Inl e, later) \<Rightarrow> (Inl e, said @ later)
                   | (Inr rest, later) \<Rightarrow> (Inr (bundleDownloads @ rest), said @ later))))"

section \<open>File materializer\<close>

text \<open>\<^verbatim>\<open>fs.mkdir(downloadPath, { recursive: true })\<close>, \<^verbatim>\<open>fs.access\<close> and \<^verbatim>\<open>fs.unlink\<close>.\<close>

definition ensureFolderCreated :: "string \<Rightarrow> world \<Rightarrow> world" where
  "ensureFolderCreated downloadPath w = w\<lparr>dirs := insert downloadPath (dirs w)\<rparr>"

definition fs_access :: "world \<Rightarrow> string \<Rightarrow> error + unit" where
  "fs_access w p = (case files w p of None \<Rightarrow> Inl (Errno ''ENOENT'') | Some c \<Rightarrow> Inr ())"

definition fs_unlink :: "string \<Rightarrow> world \<Rightarrow> (error + unit) \<times> world" where
  "fs_unlink p w =
     (case files w p of
        None \<Rightarrow> (Inl (Errno ''ENOENT''), w)
      | Some c \<Rightarrow> (Inr (), w\<lparr>files := (files w)(p := None)\<rparr>))"

text \<open>
  \<^verbatim>\<open>
  async function checkSignatureMatch(filePath, download) {
    try {
      await fs.access(filePath);
      const hashType = download.sha1 ? "sha1" : "md5";
      const hashToVerify = download[hashType];
      const hash = crypto.createHash(hashType);
      ...
      stream.on("end", () => { hash.end(); resolve(hash.read() === hashToVerify); });
      ...
    } catch (error) {
      if (error.code === "ENOENT") { return false; }
      throw error;
    }
  }
  \<close>
  The digest of the file is a string; \<^verbatim>\<open>hashToVerify\<close> is \<^verbatim>\<open>undefined\<close> when the
  variant has no such field, and then \<^verbatim>\<open>===\<close> is false.
\<close>

definition checkSignatureMatch :: "libs \<Rightarrow> string \<Rightarrow> variant \<Rightarrow> world \<Rightarrow> error + bool" where
  "checkSignatureMatch L fp d w =
     (case fs_access w fp of
        Inl e \<Rightarrow> if e = Errno ''ENOENT'' then Inr False else Inl e
      | Inr u \<Rightarrow>
          let hashType = (if truthy (sha1 d) then SHA1 else MD5);
              hashToVerify = (case hashType of SHA1 \<Rightarrow> sha1 d | MD5 \<Rightarrow> md5 d)
          in (case files w fp of
                None \<Rightarrow> Inl (Errno ''ENOENT'')
              | Some content \<Rightarrow> Inr (Some (createHash L hashType content) = hashToVerify)))"

text \<open>
  \<^verbatim>\<open>
  async function downloadFile(response, filePath) {
    return new Promise((resolve, reject) => {
      const fileStream = fsSync.createWriteStream(filePath);
      const nodeStream = Readable.fromWeb(response.body);
      nodeStream.pipe(fileStream);
      fileStream.on("finish", resolve);
      fileStream.on("error", reject);
      nodeStream.on("error", reject);
    });
  }
  \<close>
  The file is created or truncated and receives the bytes the body delivers; when the
  body fails, the bytes written so far stay in the file and the promise rejects.
\<close>

definition downloadFile :: "response \<Rightarrow> string \<Rightarrow> world \<Rightarrow> (error + unit) \<times> world" where
  "downloadFile r fp w =
     (case body r of
        Complete bytes \<Rightarrow> (Inr (), w\<lparr>files := (files w)(fp \<mapsto> bytes)\<rparr>)
      | Broken bytes e \<Rightarrow> (Inl e, w\<lparr>files := (files w)(fp \<mapsto> bytes)\<rparr>))"

text \<open>
  \<^verbatim>\<open>
  async function handleFileDownloadError(download, filePath, response) {
    downloadErrors.push({ webUrl: download.url.web, filePath,
      status: response.status, statusText: response.statusText });
    console.error(`Failed to download ...`);
    // Attempt to delete the file, even if there is an error.
    await fs.unlink(filePath);
  }
  \<close>
\<close>

definition handleFileDownloadError ::
  "variant \<Rightarrow> string \<Rightarrow> response \<Rightarrow> world \<Rightarrow> (error + unit) \<times> world" where
  "handleFileDownloadError d fp r w =
     (case url d of
        None \<Rightarrow> (Inl (TypeError ''Cannot read properties of undefined (reading web)''), w)
      | Some u \<Rightarrow>
          let w1 = w\<lparr>downloadErrors := downloadErrors w @
                       [\<lparr>webUrl = web u, filePath = fp, errStatus = status r,
                         errStatusText = statusText r\<rparr>]\<rparr>;
              w2 = say (FailedToDownload (web u) (status r) (statusText r)) w1
          in fs_unlink fp w2)"

text \<open>
  The \<^verbatim>\<open>try\<close> block of \<^verbatim>\<open>downloadBook\<close>:
  \<^verbatim>\<open>
  const response = await fetch(download.url.web);
  if (!response.ok) {
    await handleFileDownloadError(download, filePath, response);
  }
  await downloadFile(response, filePath);
  return;
  \<close>
  A request that is made is recorded in \<open>requested\<close>.
\<close>

definition downloadBook_try :: "net \<Rightarrow> variant \<Rightarrow> string \<Rightarrow> world \<Rightarrow> (error + unit) \<times> world" where
  "downloadBook_try nt d fp w =
     (case url d of
        None \<Rightarrow> (Inl (TypeError ''Cannot read properties of undefined (reading web)''), w)
      | Some u \<Rightarrow>
          let w1 = (case web u of None \<Rightarrow> w | Some a \<Rightarrow> w\<lparr>requested := requested w @ [a]\<rparr>)
          in (case fetch nt (web u) of
                Rejects e \<Rightarrow> (Inl e, w1)
              | Responds r \<Rightarrow>
                  (case (if \<not> ok r then handleFileDownloadError d fp r w1 else (Inr (), w1)) of
                     (Inl e, w2) \<Rightarrow> (Inl e, w2)
                   | (Inr u, w2) \<Rightarrow> downloadFile r fp w2)))"

text \<open>The destination path computed at the start of \<^verbatim>\<open>downloadBook\<close>.\<close>

definition downloadPathOf :: "libs \<Rightarrow> options \<Rightarrow> string \<Rightarrow> string" where
  "downloadPathOf L opts bName =
     path_resolve L (downloadFolder opts) (sanitizeFilename L bName)"

definition filePathOf :: "libs \<Rightarrow> options \<Rightarrow> string \<Rightarrow> string \<Rightarrow> string \<Rightarrow> string" where
  "filePathOf L opts bName nm lab =
     path_resolve L (downloadPathOf L opts bName)
       (sanitizeFilename L (trim nm @ getExtension (normalizeFormat lab)))"

text \<open>
  \<^verbatim>\<open>
  async function downloadBook(bundle, name, download) {
    ...
    const matches = await checkSignatureMatch(filePath, download);
    if (matches) { return true; }
    try {
      ...
    } catch (error) {
      await handleFileDownloadError(download, filePath, response);
      throw error;
    }
  }
  \<close>
  The result is \<open>True\<close> for \<^verbatim>\<open>true\<close> (skipped) and \<open>False\<close> for \<^verbatim>\<open>undefined\<close>.
  In the \<^verbatim>\<open>catch\<close> block the name \<^verbatim>\<open>response\<close> is not in scope: it is a \<^verbatim>\<open>const\<close> of the
  \<^verbatim>\<open>try\<close> block, and neither the function, the module nor the global object has a binding
  of that name. Evaluating the argument list of the call throws a \<^verbatim>\<open>ReferenceError\<close>
  before \<^verbatim>\<open>handleFileDownloadError\<close> is entered, and this error replaces the caught one.
\<close>

definition downloadBook ::
  "libs \<Rightarrow> net \<Rightarrow> options \<Rightarrow> string \<Rightarrow> string \<Rightarrow> variant \<Rightarrow> world \<Rightarrow> (error + bool) \<times> world" where
  "downloadBook L nt opts bName nm d w =
     (let w1 = ensureFolderCreated (downloadPathOf L opts bName) w
      in (case name d of
            None \<Rightarrow> (Inl (TypeError ''Cannot read properties of undefined (reading toLowerCase)''), w1)
          | Some lab \<Rightarrow>
              let fp = filePathOf L opts bName nm lab
              in (case checkSignatureMatch L fp d w1 of
                    Inl e \<Rightarrow> (Inl e, w1)
                  | Inr matches \<Rightarrow>
                      if matches then (Inr True, w1)
                      else (case downloadBook_try nt d fp w1 of
                              (Inr u, w2) \<Rightarrow> (Inr False, w2)
                            | (Inl e, w2) \<Rightarrow> (Inl (ReferenceError ''response is not defined''), w2)))))"

section \<open>Batch driver\<close>

text \<open>
  \<^verbatim>\<open>
  await async.each(downloads, async (download) => {
    await limiter.schedule(async () => {
      console.log("Downloading ...");
      const skipped = await downloadBook(download.bundle, download.name, download.download);
      if (skipped) { console.log("Skipped downloading of ..."); }
    });
  });
  \<close>
  The run is modelled for a download limit of one (the default of \<^verbatim>\<open>--download-limit\<close>):
  the limiter starts the jobs one at a time in the order they were submitted. The promise
  of \<^verbatim>\<open>async.each\<close> rejects with the first error of a job, \<^verbatim>\<open>downloadBundles\<close> has no
  handler for it, and the handler in \<^verbatim>\<open>main\<close> ends the process; a job that has not
  started by then never runs. \<open>i\<close> is the number of jobs already finished.
\<close>

fun eachDownload ::
  "libs \<Rightarrow> net \<Rightarrow> options \<Rightarrow> nat \<Rightarrow> nat \<Rightarrow> task list \<Rightarrow> world \<Rightarrow> (error + unit) \<times> world" where
  "eachDownload L nt opts tot i [] w = (Inr (), w)"
| "eachDownload L nt opts tot i (t # ts) w =
     (case downloadBook L nt opts (bundleName t) (itemName t) (download t)
             (say (Downloading t (i + 1) tot) w) of
        (Inl e, w2) \<Rightarrow> (Inl e, w2)
      | (Inr skipped, w2) \<Rightarrow>
          eachDownload L nt opts tot (i + 1) ts
            (if skipped then say (SkippedExisting t (i + 1) tot) w2 else w2))"

text \<open>
  \<^verbatim>\<open>
  async function downloadBundles(bundles, config) {
    if (!bundles.length) { console.log(colors.green("No bundles selected, exiting")); return; }
    ...
    if (!downloads.length) {
      console.log(colors.red("No downloads found matching the right format (%s), exiting"), ...);
      return;
    }
    ...
    console.log(colors.green("Done"));
  }
  \<close>
\<close>

definition downloadBundles ::
  "libs \<Rightarrow> net \<Rightarrow> options \<Rightarrow> order list \<Rightarrow> world \<Rightarrow> (error + unit) \<times> world" where
  "downloadBundles L nt opts bundles w =
     (if bundles = [] then (Inr (), say NoBundlesSelected w)
      else (case resolveBundles (format opts) bundles of
              (Inl e, said) \<Rightarrow> (Inl e, w\<lparr>console := console w @ said\<rparr>)
            | (Inr dls, said) \<Rightarrow>
                let w1 = w\<lparr>console := console w @ said\<rparr>
                in if dls = [] then (Inr (), say (NoDownloadsFound (format opts)) w1)
                   else (case eachDownload L nt opts (length dls) 0 dls w1 of
                           (Inl e, w2) \<Rightarrow> (Inl e, w2)
                         | (Inr u, w2) \<Rightarrow> (Inr (), say Done w2))))"

section \<open>The program\<close>

text \<open>
  \<^verbatim>\<open>main\<close>, from the loaded configuration on. \<open>cfg\<close> is the parsed configuration file,
  \<open>cli\<close> the command line; \<open>session\<close> is the outcome of session validation and
  authentication, \<open>select\<close> the choice of bundles (\<^verbatim>\<open>sortBundles\<close> or \<^verbatim>\<open>displayOrders\<close>).

  The first check runs before the command line is parsed: \<^verbatim>\<open>commander.format\<close> is
  \<^verbatim>\<open>undefined\<close> there, so \<^verbatim>\<open>commander.format ?? options.format\<close> is the format of the
  configuration file, and \<^verbatim>\<open>indexOf(undefined)\<close> is -1.
  \<^verbatim>\<open>
  if (ALLOWED_FORMATS.indexOf(commander.format ?? options.format) === -1) {
    console.error(colors.red("Invalid format provided."));
    commander.help();
    return;
  }
  \<close>
  After parsing, \<^verbatim>\<open>options.format\<close> is the format of the command line when given,
  else the declared default \<^verbatim>\<open>config.format ?? "epub"\<close>:
  \<^verbatim>\<open>
  if (ALLOWED_FORMATS.indexOf(options.format) === -1) {
    console.error(colors.red("Invalid format selected."));
    commander.help();
  }
  \<close>
  \<^verbatim>\<open>commander.help()\<close> prints the help and ends the process.
\<close>

record config =
  cfg_format :: "string option"
  cfg_downloadFolder :: "string option"

record argv =
  cli_format :: "string option"
  cli_downloadFolder :: "string option"

datatype outcome = HelpExit | Exit1 | Finished

definition resolvedOptions :: "config \<Rightarrow> argv \<Rightarrow> options" where
  "resolvedOptions cfg cli =
     \<lparr>downloadFolder =
        (case cli_downloadFolder cli of
           Some f \<Rightarrow> f
         | None \<Rightarrow> (case cfg_downloadFolder cfg of Some f \<Rightarrow> f | None \<Rightarrow> ''download'')),
      format =
        (case cli_format cli of
           Some f \<Rightarrow> f
         | None \<Rightarrow> (case cfg_format cfg of Some f \<Rightarrow> f | None \<Rightarrow> ''epub''))\<rparr>"

definition main ::
  "libs \<Rightarrow> net \<Rightarrow> api \<Rightarrow> (order list \<Rightarrow> order list) \<Rightarrow> config \<Rightarrow> argv \<Rightarrow> error + string
     \<Rightarrow> world \<Rightarrow> outcome \<times> world" where
  "main L nt a select cfg cli session w =
     (if (case cfg_format cfg of None \<Rightarrow> True | Some f \<Rightarrow> f \<notin> set ALLOWED_FORMATS)
      then (HelpExit, say InvalidFormatProvided w)
      else
        let w1 = say Starting w;
            opts = resolvedOptions cfg cli
        in if format opts \<notin> set ALLOWED_FORMATS then (HelpExit, say InvalidFormatSelected w1)
           else (case session of
                   Inl e \<Rightarrow> (Exit1, say (ErrorOccurred e) w1)
                 | Inr s \<Rightarrow>
                     (case fetchOrders a of
                        Inl e \<Rightarrow> (Exit1, say (ErrorOccurred e) w1)
                      | Inr orders \<Rightarrow>
                          (case downloadBundles L nt opts (select orders) w1 of
                             (Inl e, w2) \<Rightarrow> (Exit1, say (ErrorOccurred e) w2)
                           | (Inr u, w2) \<Rightarrow>
                               (Finished,
                                if downloadErrors w2 \<noteq> []
                                then say (DownloadErrors (downloadErrors w2)) w2
                                else say CompletedSuccessfully w2)))))"

section \<open>Vocabulary of the properties\<close>

text \<open>
  A platform tag that is not an array: on such tags \<^const>\<open>flatten\<close> changes nothing.
  The data model has a string here.
\<close>

definition scalar :: "jval \<Rightarrow> bool" where
  "scalar v = (case v of JArray xs \<Rightarrow> False | _ \<Rightarrow> True)"

text \<open>
  An order has an ebook download option: one of its subproducts has a download whose
  platform is the string \<open>ebook\<close>.
\<close>

definition ebookOption :: "order \<Rightarrow> bool" where
  "ebookOption ord =
     (case subproducts ord of
        None \<Rightarrow> False
      | Some sps \<Rightarrow>
          list_ex (\<lambda>sp. case downloads sp of
                          None \<Rightarrow> False
                        | Some ds \<Rightarrow> list_ex (\<lambda>d. platform d = JString ''ebook'') ds) sps)"

section \<open>Example data\<close>

text \<open>
  A catalog of two orders: one with a book in two formats, one with no ebook download.
\<close>

definition epubVariant :: variant where
  "epubVariant =
     \<lparr>name = Some ''EPUB'', url = Some \<lparr>web = Some ''https://dl/a.epub''\<rparr>, human_size = ''1 MB'',
      sha1 = Some ''s-epub'', md5 = Some ''m-epub''\<rparr>"

definition pdfVariant :: variant where
  "pdfVariant =
     \<lparr>name = Some ''PDF'', url = Some \<lparr>web = Some ''https://dl/a.pdf''\<rparr>, human_size = ''2 MB'',
      sha1 = None, md5 = Some ''m-pdf''\<rparr>"

definition mp3Variant :: variant where
  "mp3Variant =
     \<lparr>name = Some ''MP3'', url = Some \<lparr>web = Some ''https://dl/s.mp3''\<rparr>, human_size = ''3 MB'',
      sha1 = None, md5 = None\<rparr>"

definition bookOrder :: order where
  "bookOrder =
     \<lparr>gamekey = ''k1'', product_human_name = ''Books'',
      subproducts = Some
        [\<lparr>human_name = '' A Book '',
          downloads = Some [\<lparr>platform = JString ''ebook'',
                             download_struct = Some [epubVariant, pdfVariant]\<rparr>]\<rparr>]\<rparr>"

definition audioOrder :: order where
  "audioOrder =
     \<lparr>gamekey = ''k2'', product_human_name = ''Songs'',
      subproducts = Some
        [\<lparr>human_name = ''A Song'',
          downloads = Some [\<lparr>platform = JString ''audio'',
                             download_struct = Some [mp3Variant]\<rparr>]\<rparr>]\<rparr>"



definition demoApi :: api where
  "demoApi =
     \<lparr>listing = HttpResponds 200 [''k1'', ''k2''],
      details = (\<lambda>k. if k = ''k1'' then HttpResponds 200 bookOrder
                     else if k = ''k2'' then HttpResponds 200 audioOrder
                     else HttpResponds 404 audioOrder)\<rparr>"

section \<open>Vocabulary of asset resolution\<close>








section \<open>Vocabulary of the materializer\<close>

text \<open>
  The checksum a variant advertises, with its kind: the SHA-1 value when the variant has
  one (the stronger kind), the MD5 value otherwise.
\<close>

definition advertisedChecksum :: "variant \<Rightarrow> (hash_kind \<times> string) option" where
  "advertisedChecksum d =
     (if truthy (sha1 d) then map_option (Pair SHA1) (sha1 d)
      else map_option (Pair MD5) (md5 d))"

section \<open>Example environment\<close>

text \<open>
  Stand-ins for the library functions, used where a property is evaluated on the example
  catalog: file names are left as they are, paths are joined with a slash, and the digest
  of a content is the content behind a prefix that names the hash kind.
\<close>

definition plainLibs :: libs where
  "plainLibs =
     \<lparr>sanitizeFilename = (\<lambda>s. s),
      path_resolve = (\<lambda>a b. a @ ''/'' @ b),
      createHash = (\<lambda>k content. (case k of SHA1 \<Rightarrow> ''s-'' | MD5 \<Rightarrow> ''m-'') @ content)\<rparr>"

definition allOpts :: options where
  "allOpts = \<lparr>downloadFolder = ''dl'', format = ''all''\<rparr>"

definition emptyWorld :: world where
  "emptyWorld = \<lparr>files = Map.empty, dirs = {}, downloadErrors = [], requested = [], console = []\<rparr>"

definition goodNet :: net where
  "goodNet a =
     (if a = ''https://dl/a.epub''
      then Responds \<lparr>status = 200, statusText = ''OK'', body = Complete ''epub''\<rparr>
      else if a = ''https://dl/a.pdf''
      then Responds \<lparr>status = 200, statusText = ''OK'', body = Complete ''pdf''\<rparr>
      else if a = ''https://dl/s.mp3''
      then Responds \<lparr>status = 200, statusText = ''OK'', body = Complete ''mp3''\<rparr>
      else Rejects (TypeError ''fetch failed''))"

text \<open>A world in which the song of the example catalog is already on disk.\<close>

definition staleWorld :: world where
  "staleWorld = emptyWorld\<lparr>files := [''dl/Songs/A Song.mp3'' \<mapsto> ''mp3'']\<rparr>"

text \<open>A configuration file that asks for a format the example catalog does not have.\<close>

definition mobiConfig :: config where
  "mobiConfig = \<lparr>cfg_format = Some ''mobi'', cfg_downloadFolder = Some ''dl''\<rparr>"

definition noArgs :: argv where
  "noArgs = \<lparr>cli_format = None, cli_downloadFolder = None\<rparr>"

text \<open>
  A remote side that answers the request for the EPUB with status 404, and one whose
  EPUB body breaks after two bytes; a world with an outdated EPUB on disk; a configuration
  file without a format, as the program itself writes it after a login, and a command
  line that asks for EPUB.
\<close>

definition failingNet :: net where
  "failingNet a =
     (if a = ''https://dl/a.epub''
      then Responds \<lparr>status = 404, statusText = ''Not Found'', body = Complete ''gone''\<rparr>
      else goodNet a)"

definition brokenNet :: net where
  "brokenNet a =
     (if a = ''https://dl/a.epub''
      then Responds \<lparr>status = 200, statusText = ''OK'',
                      body = Broken ''ep'' (StreamError ''ECONNRESET'')\<rparr>
      else goodNet a)"

definition oldWorld :: world where
  "oldWorld = emptyWorld\<lparr>files := [''dl/Books/A Book.epub'' \<mapsto> ''old'']\<rparr>"

definition bareConfig :: config where
  "bareConfig = \<lparr>cfg_format = None, cfg_downloadFolder = Some ''dl''\<rparr>"

definition epubArgs :: argv where
  "epubArgs = \<lparr>cli_format = Some ''epub'', cli_downloadFolder = None\<rparr>"

section \<open>Properties of the string functions\<close>

lemma of_char_lower_bound: "isUpper c \<Longrightarrow> (of_char (char_of ((of_char c :: nat) + 32)) :: nat) = of_char c + 32"
  by (simp add: isUpper_def)

lemma not_isUpper_toLowerChar: "\<not> isUpper (toLowerChar c)"
  by (simp add: toLowerChar_def isUpper_def)

lemma toLowerChar_idem: "toLowerChar (toLowerChar c) = toLowerChar c"
  using not_isUpper_toLowerChar [of c] by (simp add: toLowerChar_def [of "toLowerChar c"])

lemma toLowerCase_idem: "toLowerCase (toLowerCase s) = toLowerCase s"
  by (simp add: toLowerCase_def toLowerChar_idem)

lemma sameUpToCase_lower:
  assumes "toLowerChar d = d"
  shows "sameUpToCase c d \<longleftrightarrow> toLowerChar c = d"
proof -
  have nd: "\<not> isUpper d"
    using assms not_isUpper_toLowerChar [of d] by simp
  show ?thesis
  proof (cases "isUpper c")
    case True
    have "(of_char d :: nat) = of_char c + 32 \<longleftrightarrow> char_of ((of_char c :: nat) + 32) = d"
      using of_char_lower_bound [OF True] by (metis char_of_char)
    moreover have "c \<noteq> d" using True nd by auto
    ultimately show ?thesis
      using True nd by (simp add: sameUpToCase_def toLowerChar_def)
  next
    case False
    then show ?thesis
      using nd by (auto simp add: sameUpToCase_def toLowerChar_def)
  qed
qed

lemma casingOf_lower:
  "toLowerCase tx = tx \<Longrightarrow> casingOf lab tx \<longleftrightarrow> toLowerCase lab = tx"
proof (induction tx arbitrary: lab)
  case Nil
  then show ?case by (simp add: casingOf_def toLowerCase_def)
next
  case (Cons d ds)
  from Cons.prems have d: "toLowerChar d = d" and ds: "toLowerCase ds = ds"
    by (simp_all add: toLowerCase_def)
  show ?case
  proof (cases lab)
    case Nil
    then show ?thesis by (simp add: casingOf_def toLowerCase_def)
  next
    case (Cons c cs)
    have "casingOf cs ds \<longleftrightarrow> toLowerCase cs = ds"
      using Cons.IH [OF ds] .
    then show ?thesis
      using sameUpToCase_lower [OF d, of c] Cons
      by (simp add: casingOf_def toLowerCase_def)
  qed
qed

lemma sameUpToCase_toLowerChar: "sameUpToCase c d \<Longrightarrow> toLowerChar c = toLowerChar d"
proof -
  have up: "toLowerChar y = toLowerChar x" if "isUpper x" "(of_char y :: nat) = of_char x + 32" for x y
  proof -
    have "\<not> isUpper y" using that by (simp add: isUpper_def)
    moreover have "char_of ((of_char x :: nat) + 32) = y"
      using that(2) by (metis char_of_char)
    ultimately show ?thesis using that(1) by (simp add: toLowerChar_def)
  qed
  assume "sameUpToCase c d"
  then consider "c = d" | "isUpper c" "(of_char d :: nat) = of_char c + 32"
    | "isUpper d" "(of_char c :: nat) = of_char d + 32"
    by (auto simp: sameUpToCase_def)
  then show ?thesis
  proof cases
    case 1
    then show ?thesis by simp
  next
    case 2
    then show ?thesis using up [of c d] by simp
  next
    case 3
    then show ?thesis using up [of d c] by simp
  qed
qed

lemma casingOf_toLowerCase: "casingOf a b \<Longrightarrow> toLowerCase a = toLowerCase b"
  unfolding casingOf_def toLowerCase_def
  by (induction a b rule: list_all2_induct) (simp_all add: sameUpToCase_toLowerChar)

lemma table_keys_lower:
  "toLowerCase ''.cbz'' = ''.cbz''" "toLowerCase ''pdf (hq)'' = ''pdf (hq)''"
  "toLowerCase ''pdf (hd)'' = ''pdf (hd)''" "toLowerCase ''download'' = ''download''"
  "toLowerCase ''pdf_hd'' = ''pdf_hd''"
  by (simp_all add: toLowerCase_def toLowerChar_def isUpper_def)

lemma normalizeFormat_lower: "toLowerCase (normalizeFormat lab) = normalizeFormat lab"
  by (simp add: normalizeFormat_def toLowerCase_idem)
     (simp add: toLowerCase_def toLowerChar_def isUpper_def)

text \<open>
  Claim C4. \<^const>\<open>normalizeFormat\<close> is a function of the label alone, and it follows the
  normalisation table whatever the casing of the label: every casing of \<open>.cbz\<close> gives
  \<open>cbz\<close>, every casing of \<open>pdf (hq)\<close> or \<open>pdf (hd)\<close> gives \<open>pdf_hd\<close>, every casing of
  \<open>download\<close> gives \<open>pdf\<close>, and a label that is a casing of none of the four gives its
  lower-cased form. Two labels that differ in case only have the same normalized format.
\<close>

theorem normalizeFormat_table:
  "(casingOf lab ''.cbz'' \<longrightarrow> normalizeFormat lab = ''cbz'') \<and>
   (casingOf lab ''pdf (hq)'' \<or> casingOf lab ''pdf (hd)'' \<longrightarrow> normalizeFormat lab = ''pdf_hd'') \<and>
   (casingOf lab ''download'' \<longrightarrow> normalizeFormat lab = ''pdf'') \<and>
   (\<not> casingOf lab ''.cbz'' \<and> \<not> casingOf lab ''pdf (hq)'' \<and> \<not> casingOf lab ''pdf (hd)'' \<and>
    \<not> casingOf lab ''download'' \<longrightarrow> normalizeFormat lab = toLowerCase lab) \<and>
   (casingOf lab lab' \<longrightarrow> normalizeFormat lab = normalizeFormat lab')"
  using casingOf_toLowerCase [of lab lab']
  by (simp add: casingOf_lower table_keys_lower normalizeFormat_def)

theorem normalizeFormat_table_witness:
  "casingOf ''.CBZ'' ''.cbz'' \<and> normalizeFormat ''.CBZ'' = ''cbz'' \<and>
   casingOf ''PDF (HD)'' ''pdf (hd)'' \<and> normalizeFormat ''PDF (HD)'' = ''pdf_hd'' \<and>
   casingOf ''Pdf (hQ)'' ''pdf (hq)'' \<and> normalizeFormat ''Pdf (hQ)'' = ''pdf_hd'' \<and>
   casingOf ''Download'' ''download'' \<and> normalizeFormat ''Download'' = ''pdf'' \<and>
   \<not> casingOf ''EPUB'' ''.cbz'' \<and> \<not> casingOf ''EPUB'' ''pdf (hq)'' \<and>
   \<not> casingOf ''EPUB'' ''pdf (hd)'' \<and> \<not> casingOf ''EPUB'' ''download'' \<and>
   normalizeFormat ''EPUB'' = ''epub'' \<and>
   casingOf ''ePub'' ''EPUB'' \<and> normalizeFormat ''ePub'' = normalizeFormat ''EPUB''"
proof -
  have c5: "casingOf ''ePub'' ''EPUB''"
    by (simp add: casingOf_def sameUpToCase_def isUpper_def)
  have c1: "casingOf ''.CBZ'' ''.cbz''" and c2: "casingOf ''PDF (HD)'' ''pdf (hd)''"
    and c3: "casingOf ''Pdf (hQ)'' ''pdf (hq)''" and c4: "casingOf ''Download'' ''download''"
    by (simp_all add: casingOf_def sameUpToCase_def isUpper_def)
  have n: "\<not> casingOf ''EPUB'' ''.cbz''" "\<not> casingOf ''EPUB'' ''pdf (hq)''"
    "\<not> casingOf ''EPUB'' ''pdf (hd)''" "\<not> casingOf ''EPUB'' ''download''"
    by (simp_all add: casingOf_def sameUpToCase_def isUpper_def)
  have l: "toLowerCase ''EPUB'' = ''epub''"
    by (simp add: toLowerCase_def toLowerChar_def isUpper_def char_of_eq_iff)
  show ?thesis
    using normalizeFormat_table [of "''.CBZ''"] normalizeFormat_table [of "''PDF (HD)''"]
      normalizeFormat_table [of "''Pdf (hQ)''"] normalizeFormat_table [of "''Download''"]
      normalizeFormat_table [of "''EPUB''"] normalizeFormat_table [of "''ePub''" "''EPUB''"]
      c1 c2 c3 c4 c5 n l
    by simp
qed

text \<open>
  Claim C9. A normalized format token is a value of \<^const>\<open>normalizeFormat\<close>; more
  generally, a token that lower-casing leaves unchanged. For every such token the file
  name extension is \<open> (hd).pdf\<close> when the token is \<open>pdf_hd\<close>, and a dot followed by the
  token otherwise.
\<close>

theorem getExtension_normalized:
  "getExtension (normalizeFormat lab) =
     (if normalizeFormat lab = ''pdf_hd'' then '' (hd).pdf'' else ''.'' @ normalizeFormat lab) \<and>
   (toLowerCase tok = tok \<longrightarrow>
      getExtension tok = (if tok = ''pdf_hd'' then '' (hd).pdf'' else ''.'' @ tok))"
  by (simp add: getExtension_def normalizeFormat_lower)

theorem getExtension_normalized_witness:
  "getExtension (normalizeFormat ''PDF (HQ)'') = '' (hd).pdf'' \<and>
   toLowerCase ''epub'' = ''epub'' \<and> getExtension ''epub'' = ''.epub''"
proof -
  have n: "normalizeFormat ''PDF (HQ)'' = ''pdf_hd''"
    by (simp add: normalizeFormat_def toLowerCase_def toLowerChar_def isUpper_def char_of_eq_iff)
  have l: "toLowerCase ''epub'' = ''epub''"
    by (simp add: toLowerCase_def toLowerChar_def isUpper_def)
  show ?thesis
    using getExtension_normalized [of "''PDF (HQ)''" "''epub''"] n l by simp
qed

section \<open>Properties of order detail resolution\<close>

lemma flattenFrom_append: "flattenFrom a' xs = a' @ flattenFrom [] xs"
proof (induction "a::jval list" xs arbitrary: a' rule: flattenFrom.induct)
  case (1 a)
  show ?case by simp
next
  case (2 a bs rest)
  show ?case
    using "2.IH"(2) [of "a' @ flattenFrom [] bs"] "2.IH"(2) [of "flattenFrom [] bs"] by simp
next
  case (3 a rest)
  show ?case
    using "3.IH" [of "a' @ [JUndefined]"] "3.IH" [of "[JUndefined]"] by simp
next
  case (4 a v rest)
  show ?case
    using "4.IH" [of "a' @ [JString v]"] "4.IH" [of "[JString v]"] by simp
qed

lemma flatten_scalars: "list_all scalar xs \<Longrightarrow> flatten xs = xs"
  unfolding flatten_def
proof (induction xs)
  case Nil
  show ?case by simp
next
  case (Cons x xs)
  then show ?case
    using flattenFrom_append [of "[x]" xs]
    by (cases x) (simp_all add: scalar_def)
qed

lemma set_download_platforms:
  "p \<in> set (case downloads sp of None \<Rightarrow> [] | Some ds \<Rightarrow> map platform ds) \<longleftrightarrow>
     (\<exists>ds d. downloads sp = Some ds \<and> d \<in> set ds \<and> p = platform d)"
  by (cases "downloads sp") auto

lemma set_platforms:
  "p \<in> set (platforms ord) \<longleftrightarrow>
     (\<exists>sps sp ds d. subproducts ord = Some sps \<and> sp \<in> set sps \<and> downloads sp = Some ds \<and>
           d \<in> set ds \<and> p = platform d)"
proof (cases "subproducts ord")
  case None
  then show ?thesis by (simp add: platforms_def)
next
  case (Some sps)
  then have "p \<in> set (platforms ord) \<longleftrightarrow>
      (\<exists>sp \<in> set sps. p \<in> set (case downloads sp of None \<Rightarrow> [] | Some ds \<Rightarrow> map platform ds))"
    by (simp add: platforms_def)
  then show ?thesis
    unfolding set_download_platforms using Some by auto
qed

lemma ebookOption_platforms: "ebookOption ord \<longleftrightarrow> JString ''ebook'' \<in> set (platforms ord)"
proof (cases "subproducts ord")
  case None
  then show ?thesis by (simp add: platforms_def ebookOption_def)
next
  case (Some sps)
  have "(case downloads sp of None \<Rightarrow> False | Some ds \<Rightarrow> list_ex (\<lambda>d. platform d = JString ''ebook'') ds)
        \<longleftrightarrow> (\<exists>ds d. downloads sp = Some ds \<and> d \<in> set ds \<and> JString ''ebook'' = platform d)" for sp
    by (cases "downloads sp") (auto simp: list_ex_iff)
  then show ?thesis
    unfolding set_platforms ebookOption_def using Some by (auto simp: list_ex_iff)
qed


lemma fetchOrders_Inr:
  "listing a = HttpResponds st keys \<Longrightarrow> statusOk st \<Longrightarrow>
     fetchDetails (details a) keys = Inr detailedOrders \<Longrightarrow>
     fetchOrders a = Inr (filteredOrders detailedOrders)"
  by (simp add: fetchOrders_def)

lemma retained_scalar:
  "list_all scalar (platforms ord) \<Longrightarrow> retained ord \<longleftrightarrow> ebookOption ord"
  by (simp add: retained_def flatten_scalars ebookOption_platforms)

text \<open>
  Claim C5. When the listing and every detail request succeed, \<^const>\<open>fetchOrders\<close>
  returns the filtered orders without an error, and an order of the detail results,
  whose platform tags are strings as in the data model, is among them exactly when one
  of its subproducts has a download whose platform is \<open>ebook\<close>. Whether an order is
  retained depends on its platform tags only: two orders with the same tags are both
  retained or both dropped, whatever their formats.
\<close>

theorem retained_iff_ebook_platform:
  assumes "listing a = HttpResponds st keys" and "statusOk st"
    and "fetchDetails (details a) keys = Inr detailedOrders"
    and "ord \<in> set detailedOrders"
    and "list_all scalar (platforms ord)"
  shows "fetchOrders a = Inr (filteredOrders detailedOrders) \<and>
         (ord \<in> set (filteredOrders detailedOrders) \<longleftrightarrow> ebookOption ord) \<and>
         (\<forall>ord'. platforms ord' = platforms ord \<longrightarrow> retained ord' = retained ord)"
proof -
  have "fetchOrders a = Inr (filteredOrders detailedOrders)"
    using assms(1-3) by (rule fetchOrders_Inr)
  moreover have "ord \<in> set (filteredOrders detailedOrders) \<longleftrightarrow> ebookOption ord"
    using assms(4) retained_scalar [OF assms(5)] by (simp add: filteredOrders_def)
  moreover have "\<forall>ord'. platforms ord' = platforms ord \<longrightarrow> retained ord' = retained ord"
    by (simp add: retained_def)
  ultimately show ?thesis by blast
qed

lemma demo_details: "fetchDetails (details demoApi) [''k1'', ''k2''] = Inr [bookOrder, audioOrder]"
  by (simp add: demoApi_def statusOk_def)

lemma demo_platforms:
  "platforms bookOrder = [JString ''ebook'']" "platforms audioOrder = [JString ''audio'']"
  by (simp_all add: platforms_def bookOrder_def audioOrder_def)

theorem retained_iff_ebook_platform_witness:
  "fetchOrders demoApi = Inr (filteredOrders [bookOrder, audioOrder]) \<and>
   ebookOption bookOrder \<and> bookOrder \<in> set (filteredOrders [bookOrder, audioOrder]) \<and>
   \<not> ebookOption audioOrder \<and> audioOrder \<notin> set (filteredOrders [bookOrder, audioOrder])"
proof -
  have l: "listing demoApi = HttpResponds 200 [''k1'', ''k2'']" and s: "statusOk 200"
    by (simp_all add: demoApi_def statusOk_def)
  have e: "ebookOption bookOrder" "\<not> ebookOption audioOrder"
    by (simp_all add: ebookOption_def bookOrder_def audioOrder_def)
  have "list_all scalar (platforms bookOrder)" "list_all scalar (platforms audioOrder)"
    by (simp_all add: demo_platforms scalar_def)
  then show ?thesis
    using retained_iff_ebook_platform [OF l s demo_details, of bookOrder]
      retained_iff_ebook_platform [OF l s demo_details, of audioOrder] e
    by simp
qed

section \<open>Properties of asset resolution\<close>












lemma normalize_examples:
  "normalizeFormat ''EPUB'' = ''epub''" "normalizeFormat ''PDF'' = ''pdf''"
  "normalizeFormat ''MP3'' = ''mp3''"
  by (simp_all add: normalizeFormat_def toLowerCase_def toLowerChar_def isUpper_def char_of_eq_iff)





section \<open>Properties of the materializer\<close>

lemmas materializer_defs =
  downloadBook_def downloadBook_try_def handleFileDownloadError_def downloadFile_def
  checkSignatureMatch_def fs_access_def fs_unlink_def ensureFolderCreated_def fetch_def ok_def
  say_def filePathOf_def downloadPathOf_def getExtension_def trim_def isSpace_def truthy_def

lemmas example_defs =
  plainLibs_def allOpts_def emptyWorld_def epubVariant_def pdfVariant_def mp3Variant_def goodNet_def

lemma checkSignatureMatch_present:
  "files w fp = Some content \<Longrightarrow>
     checkSignatureMatch L fp d w =
       Inr (advertisedChecksum d =
              Some (if truthy (sha1 d) then SHA1 else MD5,
                    createHash L (if truthy (sha1 d) then SHA1 else MD5) content))"
  by (cases "sha1 d"; cases "md5 d")
     (auto simp: checkSignatureMatch_def fs_access_def advertisedChecksum_def Let_def)

lemma checkSignatureMatch_absent:
  "files w fp = None \<Longrightarrow> checkSignatureMatch L fp d w = Inr False"
  by (simp add: checkSignatureMatch_def fs_access_def)

lemma advertisedChecksum_kind:
  "advertisedChecksum d = Some (k, h) \<Longrightarrow> k = (if truthy (sha1 d) then SHA1 else MD5)"
  by (auto simp: advertisedChecksum_def split: if_splits)

lemma checkSignatureMatch_matches:
  assumes "files w fp = Some content" and "advertisedChecksum d = Some (k, createHash L k content)"
  shows "checkSignatureMatch L fp d w = Inr True"
  using assms advertisedChecksum_kind [OF assms(2)]
  by (simp add: checkSignatureMatch_present)

lemma files_ensureFolderCreated [simp]: "files (ensureFolderCreated p w) = files w"
  and requested_ensureFolderCreated [simp]: "requested (ensureFolderCreated p w) = requested w"
  by (simp_all add: ensureFolderCreated_def)

lemma requested_say [simp]: "requested (say m w) = requested w"
  by (simp add: say_def)

lemma requested_fs_unlink: "requested (snd (fs_unlink p w)) = requested w"
  by (cases "files w p") (simp_all add: fs_unlink_def)

lemma requested_handleFileDownloadError:
  "requested (snd (handleFileDownloadError d fp r w)) = requested w"
  by (cases "url d") (simp_all add: handleFileDownloadError_def Let_def requested_fs_unlink)

lemma requested_downloadFile: "requested (snd (downloadFile r fp w)) = requested w"
  by (cases "body r") (simp_all add: downloadFile_def)

lemma downloadFile_Inr:
  "downloadFile r fp w = (Inr x, w') \<Longrightarrow> body r = Complete bytes \<Longrightarrow> files w' fp = Some bytes"
  by (auto simp: downloadFile_def)

lemma requested_downloadBook_try:
  assumes "url d = Some u" and "web u = Some a"
  shows "requested (snd (downloadBook_try nt d fp w)) = requested w @ [a]"
proof (cases "nt a")
  case (Rejects e)
  then show ?thesis using assms by (simp add: downloadBook_try_def fetch_def)
next
  case (Responds r)
  define w1 where "w1 = w\<lparr>requested := requested w @ [a]\<rparr>"
  define h where "h = (if \<not> ok r then handleFileDownloadError d fp r w1 else (Inr (), w1))"
  have rh: "requested (snd h) = requested w @ [a]"
    by (simp add: h_def requested_handleFileDownloadError w1_def)
  have t: "downloadBook_try nt d fp w =
      (case h of (Inl e, w2) \<Rightarrow> (Inl e, w2) | (Inr u, w2) \<Rightarrow> downloadFile r fp w2)"
    using assms Responds by (simp add: downloadBook_try_def fetch_def h_def w1_def)
  show ?thesis
    unfolding t using rh by (cases h; cases "fst h") (auto simp: requested_downloadFile)
qed

lemma downloadBook_try_Inr:
  assumes "downloadBook_try nt d fp w = (Inr x, w')"
    and "url d = Some u" and "web u = Some a" and "nt a = Responds r" and "body r = Complete bytes"
  shows "files w' fp = Some bytes"
proof -
  define w1 where "w1 = w\<lparr>requested := requested w @ [a]\<rparr>"
  define h where "h = (if \<not> ok r then handleFileDownloadError d fp r w1 else (Inr (), w1))"
  have t: "downloadBook_try nt d fp w =
      (case h of (Inl e, w2) \<Rightarrow> (Inl e, w2) | (Inr u, w2) \<Rightarrow> downloadFile r fp w2)"
    using assms(2-4) by (simp add: downloadBook_try_def fetch_def h_def w1_def)
  obtain hr w2 where h: "h = (hr, w2)" by (cases h)
  show ?thesis
  proof (cases hr)
    case (Inl e)
    with assms(1) t h show ?thesis by simp
  next
    case (Inr y)
    with assms(1) t h have "downloadFile r fp w2 = (Inr x, w')" by simp
    then show ?thesis using assms(5) by (rule downloadFile_Inr)
  qed
qed

lemma downloadBook_skip:
  assumes "name d = Some lab"
    and "files w (filePathOf L opts bName nm lab) = Some content"
    and "advertisedChecksum d = Some (k, createHash L k content)"
  shows "downloadBook L nt opts bName nm d w =
           (Inr True, ensureFolderCreated (downloadPathOf L opts bName) w)"
proof -
  have "checkSignatureMatch L (filePathOf L opts bName nm lab) d
          (ensureFolderCreated (downloadPathOf L opts bName) w) = Inr True"
    using assms(2,3) by (intro checkSignatureMatch_matches) simp_all
  then show ?thesis using assms(1) by (simp add: downloadBook_def Let_def)
qed

lemma downloadBook_downloaded:
  assumes "downloadBook L nt opts bName nm d w = (Inr False, w')"
    and "name d = Some lab"
    and "url d = Some u" and "web u = Some a" and "nt a = Responds r" and "body r = Complete bytes"
  shows "files w' (filePathOf L opts bName nm lab) = Some bytes"
proof -
  define w1 where "w1 = ensureFolderCreated (downloadPathOf L opts bName) w"
  define fp where "fp = filePathOf L opts bName nm lab"
  have b: "downloadBook L nt opts bName nm d w =
     (case checkSignatureMatch L fp d w1 of
        Inl e \<Rightarrow> (Inl e, w1)
      | Inr matches \<Rightarrow>
          if matches then (Inr True, w1)
          else (case downloadBook_try nt d fp w1 of
                  (Inr u, w2) \<Rightarrow> (Inr False, w2)
                | (Inl e, w2) \<Rightarrow> (Inl (ReferenceError ''response is not defined''), w2)))"
    unfolding w1_def fp_def using assms(2) by (simp add: downloadBook_def Let_def)
  obtain tr w2 where t: "downloadBook_try nt d fp w1 = (tr, w2)"
    by (cases "downloadBook_try nt d fp w1")
  from assms(1) b t obtain x where "tr = Inr x" and "w2 = w'"
    by (cases "checkSignatureMatch L fp d w1"; cases tr) (auto split: if_splits)
  with t have "downloadBook_try nt d fp w1 = (Inr x, w')" by simp
  from downloadBook_try_Inr [OF this assms(3-6)] show ?thesis by (simp add: fp_def)
qed

text \<open>
  Claim C3. When a file exists at the destination path and its digest, of the stronger
  kind the variant advertises, equals the advertised checksum, \<^const>\<open>downloadBook\<close>
  reports the task as skipped and requests nothing (files and recorded errors are as
  before). Idempotence follows: after a run that downloaded the complete body of an asset
  whose digest is the advertised checksum, a second run on the resulting state against
  the same remote side reports skipped and requests nothing.
\<close>

theorem skip_when_checksum_matches:
  "(name d = Some lab \<and> files w (filePathOf L opts bName nm lab) = Some content \<and>
    advertisedChecksum d = Some (k, createHash L k content) \<longrightarrow>
      fst (downloadBook L nt opts bName nm d w) = Inr True \<and>
      requested (snd (downloadBook L nt opts bName nm d w)) = requested w \<and>
      files (snd (downloadBook L nt opts bName nm d w)) = files w \<and>
      downloadErrors (snd (downloadBook L nt opts bName nm d w)) = downloadErrors w) \<and>
   (name d = Some lab \<and> url d = Some u \<and> web u = Some a \<and> nt a = Responds r \<and>
    body r = Complete bytes \<and> advertisedChecksum d = Some (k, createHash L k bytes) \<and>
    downloadBook L nt opts bName nm d w = (Inr False, w') \<longrightarrow>
      fst (downloadBook L nt opts bName nm d w') = Inr True \<and>
      requested (snd (downloadBook L nt opts bName nm d w')) = requested w')"
proof (intro conjI impI)
  assume a: "name d = Some lab \<and> files w (filePathOf L opts bName nm lab) = Some content \<and>
    advertisedChecksum d = Some (k, createHash L k content)"
  then have a1: "name d = Some lab"
    and a2: "files w (filePathOf L opts bName nm lab) = Some content"
    and a3: "advertisedChecksum d = Some (k, createHash L k content)"
    by simp_all
  have s: "downloadBook L nt opts bName nm d w =
           (Inr True, ensureFolderCreated (downloadPathOf L opts bName) w)"
    using a1 a2 a3 by (rule downloadBook_skip)
  show "fst (downloadBook L nt opts bName nm d w) = Inr True"
    and "requested (snd (downloadBook L nt opts bName nm d w)) = requested w"
    and "files (snd (downloadBook L nt opts bName nm d w)) = files w"
    and "downloadErrors (snd (downloadBook L nt opts bName nm d w)) = downloadErrors w"
    by (simp_all add: s ensureFolderCreated_def)
next
  assume a: "name d = Some lab \<and> url d = Some u \<and> web u = Some a \<and> nt a = Responds r \<and>
    body r = Complete bytes \<and> advertisedChecksum d = Some (k, createHash L k bytes) \<and>
    downloadBook L nt opts bName nm d w = (Inr False, w')"
  then have b1: "name d = Some lab" and b2: "url d = Some u" and b3: "web u = Some a"
    and b4: "nt a = Responds r" and b5: "body r = Complete bytes"
    and b6: "advertisedChecksum d = Some (k, createHash L k bytes)"
    and b7: "downloadBook L nt opts bName nm d w = (Inr False, w')"
    by simp_all
  have f: "files w' (filePathOf L opts bName nm lab) = Some bytes"
    using b7 b1 b2 b3 b4 b5 by (rule downloadBook_downloaded)
  have s: "downloadBook L nt opts bName nm d w' =
           (Inr True, ensureFolderCreated (downloadPathOf L opts bName) w')"
    using b1 f b6 by (rule downloadBook_skip)
  show "fst (downloadBook L nt opts bName nm d w') = Inr True"
    and "requested (snd (downloadBook L nt opts bName nm d w')) = requested w'"
    by (simp_all add: s)
qed

lemma lower_examples:
  "toLowerCase ''epub'' = ''epub''" "toLowerCase ''pdf'' = ''pdf''" "toLowerCase ''mp3'' = ''mp3''"
  by (simp_all add: toLowerCase_def toLowerChar_def isUpper_def)

lemma demo_first_run:
  "fst (downloadBook plainLibs goodNet allOpts ''Books'' '' A Book '' epubVariant emptyWorld) = Inr False"
  "requested (snd (downloadBook plainLibs goodNet allOpts ''Books'' '' A Book '' epubVariant emptyWorld))
     = [''https://dl/a.epub'']"
  "files (snd (downloadBook plainLibs goodNet allOpts ''Books'' '' A Book '' epubVariant emptyWorld))
     (filePathOf plainLibs allOpts ''Books'' '' A Book '' ''EPUB'') = Some ''epub''"
  by (simp_all add: materializer_defs example_defs normalize_examples lower_examples Let_def)

theorem skip_when_checksum_matches_witness:
  "fst (downloadBook plainLibs goodNet allOpts ''Books'' '' A Book '' epubVariant emptyWorld) = Inr False \<and>
   files (snd (downloadBook plainLibs goodNet allOpts ''Books'' '' A Book '' epubVariant emptyWorld))
     (filePathOf plainLibs allOpts ''Books'' '' A Book '' ''EPUB'') = Some ''epub'' \<and>
   advertisedChecksum epubVariant = Some (SHA1, createHash plainLibs SHA1 ''epub'') \<and>
   fst (downloadBook plainLibs goodNet allOpts ''Books'' '' A Book '' epubVariant
          (snd (downloadBook plainLibs goodNet allOpts ''Books'' '' A Book '' epubVariant emptyWorld)))
     = Inr True \<and>
   requested (snd (downloadBook plainLibs goodNet allOpts ''Books'' '' A Book '' epubVariant
          (snd (downloadBook plainLibs goodNet allOpts ''Books'' '' A Book '' epubVariant emptyWorld))))
     = [''https://dl/a.epub''] \<and>
   downloadErrors (snd (downloadBook plainLibs goodNet allOpts ''Books'' '' A Book '' epubVariant
          (snd (downloadBook plainLibs goodNet allOpts ''Books'' '' A Book '' epubVariant emptyWorld))))
     = downloadErrors
         (snd (downloadBook plainLibs goodNet allOpts ''Books'' '' A Book '' epubVariant emptyWorld))"
proof -
  define w' where
    "w' = snd (downloadBook plainLibs goodNet allOpts ''Books'' '' A Book '' epubVariant emptyWorld)"
  have h: "name epubVariant = Some ''EPUB'' \<and>
      url epubVariant = Some \<lparr>web = Some ''https://dl/a.epub''\<rparr> \<and>
      web \<lparr>web = Some ''https://dl/a.epub''\<rparr> = Some ''https://dl/a.epub'' \<and>
      goodNet ''https://dl/a.epub'' =
        Responds \<lparr>status = 200, statusText = ''OK'', body = Complete ''epub''\<rparr> \<and>
      body \<lparr>status = 200, statusText = ''OK'', body = Complete ''epub''\<rparr> = Complete ''epub'' \<and>
      advertisedChecksum epubVariant = Some (SHA1, createHash plainLibs SHA1 ''epub'') \<and>
      downloadBook plainLibs goodNet allOpts ''Books'' '' A Book '' epubVariant emptyWorld =
        (Inr False, w')"
    using demo_first_run(1)
    by (simp add: w'_def prod_eq_iff epubVariant_def goodNet_def advertisedChecksum_def truthy_def
        plainLibs_def)
  have f: "files w' (filePathOf plainLibs allOpts ''Books'' '' A Book '' ''EPUB'') = Some ''epub''"
    unfolding w'_def by (rule demo_first_run(3))
  note again = skip_when_checksum_matches [of epubVariant "''EPUB''" emptyWorld plainLibs allOpts
        "''Books''" "'' A Book ''" "''epub''" SHA1 goodNet "\<lparr>web = Some ''https://dl/a.epub''\<rparr>"
        "''https://dl/a.epub''" "\<lparr>status = 200, statusText = ''OK'', body = Complete ''epub''\<rparr>"
        "''epub''" w']
  note present = skip_when_checksum_matches [of epubVariant "''EPUB''" w' plainLibs allOpts
        "''Books''" "'' A Book ''" "''epub''" SHA1 goodNet]
  show ?thesis
    using again present h f demo_first_run(1,2)
    unfolding w'_def by simp
qed

text \<open>
  Claim C10. For a variant that advertises neither a SHA-1 nor an MD5 checksum the skip
  check returns false, whether or not a file exists at the destination path;
  \<^const>\<open>downloadBook\<close> never reports such a task as skipped, and every run requests the
  asset again.
\<close>

theorem never_skipped_without_checksum:
  assumes "sha1 d = None" and "md5 d = None"
  shows "checkSignatureMatch L fp d w = Inr False \<and>
         fst (downloadBook L nt opts bName nm d w) \<noteq> Inr True \<and>
         (name d = Some lab \<and> url d = Some u \<and> web u = Some a \<longrightarrow>
            requested (snd (downloadBook L nt opts bName nm d w)) = requested w @ [a])"
proof -
  have c: "checkSignatureMatch L p d v = Inr False" for p v
    using assms
    by (cases "files v p") (simp_all add: checkSignatureMatch_def fs_access_def truthy_def)
  have n: "fst (downloadBook L nt opts bName nm d w) \<noteq> Inr True"
    by (cases "name d")
       (auto simp: downloadBook_def Let_def c split: prod.splits sum.splits)
  have r: "requested (snd (downloadBook L nt opts bName nm d w)) = requested w @ [a]"
    if "name d = Some lab" "url d = Some u" "web u = Some a"
  proof -
    define w1 where "w1 = ensureFolderCreated (downloadPathOf L opts bName) w"
    define fp where "fp = filePathOf L opts bName nm lab"
    have "requested (snd (downloadBook_try nt d fp w1)) = requested w @ [a]"
      using requested_downloadBook_try [OF that(2,3), of nt fp w1] by (simp add: w1_def)
    then show ?thesis
      using that(1)
      by (cases "downloadBook_try nt d fp w1"; cases "fst (downloadBook_try nt d fp w1)")
         (auto simp: downloadBook_def Let_def c w1_def fp_def)
  qed
  from c n r show ?thesis by blast
qed


theorem never_skipped_without_checksum_witness:
  "sha1 mp3Variant = None \<and> md5 mp3Variant = None \<and>
   files staleWorld (filePathOf plainLibs allOpts ''Songs'' ''A Song'' ''MP3'') = Some ''mp3'' \<and>
   checkSignatureMatch plainLibs (filePathOf plainLibs allOpts ''Songs'' ''A Song'' ''MP3'')
     mp3Variant staleWorld = Inr False \<and>
   fst (downloadBook plainLibs goodNet allOpts ''Songs'' ''A Song'' mp3Variant staleWorld) \<noteq> Inr True \<and>
   requested (snd (downloadBook plainLibs goodNet allOpts ''Songs'' ''A Song'' mp3Variant staleWorld))
     = [''https://dl/s.mp3'']"
proof -
  have h: "sha1 mp3Variant = None" "md5 mp3Variant = None"
    by (simp_all add: mp3Variant_def)
  have f: "files staleWorld (filePathOf plainLibs allOpts ''Songs'' ''A Song'' ''MP3'') = Some ''mp3''"
    by (simp add: staleWorld_def materializer_defs example_defs normalize_examples lower_examples)
  have u: "name mp3Variant = Some ''MP3'' \<and> url mp3Variant = Some \<lparr>web = Some ''https://dl/s.mp3''\<rparr> \<and>
      web \<lparr>web = Some ''https://dl/s.mp3''\<rparr> = Some ''https://dl/s.mp3''"
    by (simp add: mp3Variant_def)
  have e: "requested staleWorld = []"
    by (simp add: staleWorld_def emptyWorld_def)
  show ?thesis
    using never_skipped_without_checksum [OF h, of plainLibs
        "filePathOf plainLibs allOpts ''Songs'' ''A Song'' ''MP3''" staleWorld goodNet allOpts
        "''Songs''" "''A Song''" "''MP3''" "\<lparr>web = Some ''https://dl/s.mp3''\<rparr>" "''https://dl/s.mp3''"]
      h f u e
    by simp
qed

section \<open>Properties of the batch driver\<close>

lemma resolveBundles_skip:
  assumes "subproducts b = Some sps"
    and "resolveSubproducts fmt (product_human_name b) sps [] [] = Inr ([], bf)"
  shows "resolveBundles fmt (b # bs) =
           (fst (resolveBundles fmt bs),
            NoDownloadsForBundle fmt (product_human_name b) (sort bf) # snd (resolveBundles fmt bs))"
  using assms
  by (cases "resolveBundles fmt bs"; cases "fst (resolveBundles fmt bs)") (simp_all add: Let_def)

lemma resolveBundles_append:
  "resolveBundles fmt pre = (Inr t1, m1) \<Longrightarrow>
   resolveBundles fmt (pre @ bs) =
     (case resolveBundles fmt bs of
        (Inl e, m2) \<Rightarrow> (Inl e, m1 @ m2)
      | (Inr t2, m2) \<Rightarrow> (Inr (t1 @ t2), m1 @ m2))"
proof (induction pre arbitrary: t1 m1)
  case Nil
  then show ?case by (cases "resolveBundles fmt bs"; cases "fst (resolveBundles fmt bs)") auto
next
  case (Cons b pre)
  from Cons.prems obtain sps where sps: "subproducts b = Some sps"
    by (cases "subproducts b") auto
  from Cons.prems sps obtain bd bf
    where r: "resolveSubproducts fmt (product_human_name b) sps [] [] = Inr (bd, bf)"
    by (cases "resolveSubproducts fmt (product_human_name b) sps [] []") auto
  define said where "said =
    (if bd = [] then [NoDownloadsForBundle fmt (product_human_name b) (sort bf)] else [])"
  from Cons.prems sps r obtain rest later where p: "resolveBundles fmt pre = (Inr rest, later)"
    by (cases "resolveBundles fmt pre") (auto simp: Let_def split: sum.splits)
  from Cons.prems sps r p have t1: "t1 = bd @ rest" and m1: "m1 = said @ later"
    by (simp_all add: Let_def said_def)
  show ?case
    using Cons.IH [OF p] sps r t1 m1
    by (cases "resolveBundles fmt bs"; cases "fst (resolveBundles fmt bs)")
       (simp_all add: Let_def said_def)
qed

lemma downloadBundles_empty:
  assumes "resolveBundles (format opts) bundles = (Inr [], said)"
  shows "downloadBundles L nt opts bundles w =
           (Inr (),
            if bundles = [] then say NoBundlesSelected w
            else say (NoDownloadsFound (format opts)) (w\<lparr>console := console w @ said\<rparr>))"
  using assms by (simp add: downloadBundles_def)

text \<open>
  Claim C8. When no variant matches the selector, so that the resolved task set is empty,
  \<^const>\<open>downloadBundles\<close> returns normally, requests nothing, writes no file and records no
  error; it prints the diagnostics and the notice that nothing was found. \<^const>\<open>main\<close>
  then finishes with the success message. A bundle with no matching variant adds its
  diagnostic, with the sorted formats it offers, and nothing else: the tasks are those of
  the other bundles.
\<close>

theorem empty_resolution_is_success:
  "(resolveBundles (format opts) bundles = (Inr [], said) \<longrightarrow>
      fst (downloadBundles L nt opts bundles w) = Inr () \<and>
      requested (snd (downloadBundles L nt opts bundles w)) = requested w \<and>
      files (snd (downloadBundles L nt opts bundles w)) = files w \<and>
      downloadErrors (snd (downloadBundles L nt opts bundles w)) = downloadErrors w \<and>
      console (snd (downloadBundles L nt opts bundles w)) =
        (if bundles = [] then console w @ [NoBundlesSelected]
         else console w @ said @ [NoDownloadsFound (format opts)])) \<and>
   (cfg_format cfg = Some f \<and> f \<in> set ALLOWED_FORMATS \<and>
    format (resolvedOptions cfg cli) \<in> set ALLOWED_FORMATS \<and> session = Inr s \<and>
    fetchOrders a = Inr orders \<and>
    resolveBundles (format (resolvedOptions cfg cli)) (select orders) = (Inr [], said) \<and>
    downloadErrors w = [] \<longrightarrow>
      fst (main L nt a select cfg cli session w) = Finished \<and>
      last (console (snd (main L nt a select cfg cli session w))) = CompletedSuccessfully \<and>
      requested (snd (main L nt a select cfg cli session w)) = requested w \<and>
      files (snd (main L nt a select cfg cli session w)) = files w) \<and>
   (resolveBundles fmt pre = (Inr t1, m1) \<and> subproducts b = Some sps \<and>
    resolveSubproducts fmt (product_human_name b) sps [] [] = Inr ([], bf) \<longrightarrow>
      fst (resolveBundles fmt (pre @ b # post)) = fst (resolveBundles fmt (pre @ post)) \<and>
      snd (resolveBundles fmt (pre @ b # post)) =
        m1 @ NoDownloadsForBundle fmt (product_human_name b) (sort bf) #
          snd (resolveBundles fmt post))"
proof (intro conjI impI)
  assume r: "resolveBundles (format opts) bundles = (Inr [], said)"
  note d = downloadBundles_empty [OF r, of L nt w]
  show "fst (downloadBundles L nt opts bundles w) = Inr ()"
    and "requested (snd (downloadBundles L nt opts bundles w)) = requested w"
    and "files (snd (downloadBundles L nt opts bundles w)) = files w"
    and "downloadErrors (snd (downloadBundles L nt opts bundles w)) = downloadErrors w"
    and "console (snd (downloadBundles L nt opts bundles w)) =
        (if bundles = [] then console w @ [NoBundlesSelected]
         else console w @ said @ [NoDownloadsFound (format opts)])"
    by (simp_all add: d say_def)
next
  assume h: "cfg_format cfg = Some f \<and> f \<in> set ALLOWED_FORMATS \<and>
    format (resolvedOptions cfg cli) \<in> set ALLOWED_FORMATS \<and> session = Inr s \<and>
    fetchOrders a = Inr orders \<and>
    resolveBundles (format (resolvedOptions cfg cli)) (select orders) = (Inr [], said) \<and>
    downloadErrors w = []"
  then have r: "resolveBundles (format (resolvedOptions cfg cli)) (select orders) = (Inr [], said)"
    by simp
  note d = downloadBundles_empty [OF r, of L nt "say Starting w"]
  show "fst (main L nt a select cfg cli session w) = Finished"
    and "last (console (snd (main L nt a select cfg cli session w))) = CompletedSuccessfully"
    and "requested (snd (main L nt a select cfg cli session w)) = requested w"
    and "files (snd (main L nt a select cfg cli session w)) = files w"
    using h by (simp_all add: main_def Let_def d) (simp_all add: say_def)
next
  assume h: "resolveBundles fmt pre = (Inr t1, m1) \<and> subproducts b = Some sps \<and>
    resolveSubproducts fmt (product_human_name b) sps [] [] = Inr ([], bf)"
  then have p: "resolveBundles fmt pre = (Inr t1, m1)" and s: "subproducts b = Some sps"
    and r: "resolveSubproducts fmt (product_human_name b) sps [] [] = Inr ([], bf)"
    by simp_all
  note k = resolveBundles_skip [OF s r, of post]
  show "fst (resolveBundles fmt (pre @ b # post)) = fst (resolveBundles fmt (pre @ post))"
    and "snd (resolveBundles fmt (pre @ b # post)) =
        m1 @ NoDownloadsForBundle fmt (product_human_name b) (sort bf) #
          snd (resolveBundles fmt post)"
    unfolding resolveBundles_append [OF p] k
    by (cases "resolveBundles fmt post"; cases "fst (resolveBundles fmt post)"; simp)+
qed

lemma allowed_formats: "set ALLOWED_FORMATS = set SUPPORTED_FORMATS \<union> {''all''}"
  by (simp add: ALLOWED_FORMATS_def)

lemma demo_sorted: "sort [''epub'', ''pdf''] = [''epub'', ''pdf'']"
  by (simp add: less_eq_char_def less_char_def)

lemma demo_resolve_mobi:
  "resolveBundles ''mobi'' [bookOrder] =
     (Inr [], [NoDownloadsForBundle ''mobi'' ''Books'' [''epub'', ''pdf'']])"
  by (simp add: bookOrder_def downloadStructs_def epubVariant_def pdfVariant_def
      normalize_examples SUPPORTED_FORMATS_def Let_def demo_sorted)

lemma demo_fetchOrders: "fetchOrders demoApi = Inr [bookOrder]"
proof -
  have "retained bookOrder" "\<not> retained audioOrder"
    by (simp_all add: retained_def demo_platforms flatten_def)
  then show ?thesis
    using demo_details by (simp add: fetchOrders_def demoApi_def statusOk_def filteredOrders_def)
qed

lemma demo_resolve_audio:
  "resolveSubproducts ''epub'' (product_human_name audioOrder)
     [\<lparr>human_name = ''A Song'',
       downloads = Some [\<lparr>platform = JString ''audio'', download_struct = Some [mp3Variant]\<rparr>]\<rparr>]
     [] [] = Inr ([], [])"
  by (simp add: downloadStructs_def)

lemma demo_resolve_book:
  "resolveBundles ''epub'' [bookOrder] =
     (Inr [\<lparr>bundleName = ''Books'', download = epubVariant, itemName = '' A Book ''\<rparr>], [])"
  by (simp add: bookOrder_def downloadStructs_def epubVariant_def pdfVariant_def
      normalize_examples SUPPORTED_FORMATS_def Let_def)

theorem empty_resolution_is_success_witness:
  "resolveBundles ''mobi'' [bookOrder] =
     (Inr [], [NoDownloadsForBundle ''mobi'' ''Books'' [''epub'', ''pdf'']]) \<and>
   fst (downloadBundles plainLibs goodNet \<lparr>downloadFolder = ''dl'', format = ''mobi''\<rparr>
          [bookOrder] emptyWorld) = Inr () \<and>
   requested (snd (downloadBundles plainLibs goodNet \<lparr>downloadFolder = ''dl'', format = ''mobi''\<rparr>
          [bookOrder] emptyWorld)) = [] \<and>
   console (snd (downloadBundles plainLibs goodNet \<lparr>downloadFolder = ''dl'', format = ''mobi''\<rparr>
          [bookOrder] emptyWorld)) =
     [NoDownloadsForBundle ''mobi'' ''Books'' [''epub'', ''pdf''], NoDownloadsFound ''mobi''] \<and>
   fst (main plainLibs goodNet demoApi (\<lambda>orders. orders) mobiConfig noArgs (Inr ''sess'') emptyWorld)
     = Finished \<and>
   last (console (snd (main plainLibs goodNet demoApi (\<lambda>orders. orders) mobiConfig noArgs
           (Inr ''sess'') emptyWorld))) = CompletedSuccessfully \<and>
   requested (snd (main plainLibs goodNet demoApi (\<lambda>orders. orders) mobiConfig noArgs
           (Inr ''sess'') emptyWorld)) = [] \<and>
   fst (resolveBundles ''epub'' ([bookOrder] @ audioOrder # [])) =
     fst (resolveBundles ''epub'' ([bookOrder] @ [])) \<and>
   snd (resolveBundles ''epub'' ([bookOrder] @ audioOrder # [])) =
     [NoDownloadsForBundle ''epub'' ''Songs'' []]"
proof -
  have o: "format \<lparr>downloadFolder = ''dl'', format = ''mobi''\<rparr> = ''mobi''"
    "resolvedOptions mobiConfig noArgs = \<lparr>downloadFolder = ''dl'', format = ''mobi''\<rparr>"
    by (simp_all add: resolvedOptions_def mobiConfig_def noArgs_def)
  have c: "cfg_format mobiConfig = Some ''mobi''" "''mobi'' \<in> set ALLOWED_FORMATS"
    by (simp_all add: mobiConfig_def allowed_formats SUPPORTED_FORMATS_def)
  have e: "requested emptyWorld = []" "downloadErrors emptyWorld = []" "console emptyWorld = []"
    by (simp_all add: emptyWorld_def)
  have s: "subproducts audioOrder = Some
     [\<lparr>human_name = ''A Song'',
       downloads = Some [\<lparr>platform = JString ''audio'', download_struct = Some [mp3Variant]\<rparr>]\<rparr>]"
    by (simp add: audioOrder_def)
  have n: "product_human_name audioOrder = ''Songs''"
    by (simp add: audioOrder_def)
  have x: "sort ([]::string list) = []" "snd (resolveBundles ''epub'' []) = []"
    by simp_all
  note T1 = empty_resolution_is_success [of "\<lparr>downloadFolder = ''dl'', format = ''mobi''\<rparr>"
      "[bookOrder]" "[NoDownloadsForBundle ''mobi'' ''Books'' [''epub'', ''pdf'']]" plainLibs goodNet
      emptyWorld mobiConfig "''mobi''" noArgs "Inr ''sess''" "''sess''" demoApi "[bookOrder]"
      "\<lambda>orders. orders" "''epub''" "[bookOrder]"
      "[\<lparr>bundleName = ''Books'', download = epubVariant, itemName = '' A Book ''\<rparr>]" "[]"
      audioOrder
      "[\<lparr>human_name = ''A Song'',
         downloads = Some [\<lparr>platform = JString ''audio'', download_struct = Some [mp3Variant]\<rparr>]\<rparr>]"
      "[]" "[]"]
  show ?thesis
    using T1 demo_resolve_mobi demo_fetchOrders demo_resolve_audio demo_resolve_book o c e s n x
    by (simp del: resolveBundles.simps resolveSubproducts.simps append.simps)
qed

section \<open>Behaviour on failed transfers and on a configuration without a format\<close>

lemma demo_resolve_all:
  "resolveBundles ''all'' [bookOrder] =
     (Inr [\<lparr>bundleName = ''Books'', download = epubVariant, itemName = '' A Book ''\<rparr>,
           \<lparr>bundleName = ''Books'', download = pdfVariant, itemName = '' A Book ''\<rparr>], [])"
  by (simp add: bookOrder_def downloadStructs_def epubVariant_def pdfVariant_def
      normalize_examples SUPPORTED_FORMATS_def Let_def)

lemma good_batch:
  "fst (downloadBundles plainLibs goodNet allOpts [bookOrder] emptyWorld) = Inr ()"
  "requested (snd (downloadBundles plainLibs goodNet allOpts [bookOrder] emptyWorld)) =
     [''https://dl/a.epub'', ''https://dl/a.pdf'']"
  "files (snd (downloadBundles plainLibs goodNet allOpts [bookOrder] emptyWorld))
     ''dl/Books/A Book.pdf'' = Some ''pdf''"
  by (simp_all add: downloadBundles_def demo_resolve_all [unfolded allOpts_def]
      materializer_defs example_defs normalize_examples lower_examples Let_def
      del: resolveBundles.simps)

text \<open>
  Claim C1 says that a batch in which one transfer gets a non-success response still
  attempts every other task and records one error. The code does not do so. On the
  example catalog with selector \<open>all\<close> the batch has two tasks; the request for the first
  is answered with status 404 and no file exists at its destination. The error is
  recorded, \<^verbatim>\<open>fs.unlink\<close> then fails because there is no file, the \<^verbatim>\<open>catch\<close> block fails
  on the name \<^verbatim>\<open>response\<close>, and the batch ends with that error: the second task is never
  requested, its file is never written and \<open>Done\<close> is never printed. With every request
  answered with status 200 the same batch downloads both files (\<open>good_batch\<close>).
\<close>

theorem failed_transfer_aborts_batch:
  "fst (downloadBundles plainLibs failingNet allOpts [bookOrder] emptyWorld) =
     Inl (ReferenceError ''response is not defined'') \<and>
   requested (snd (downloadBundles plainLibs failingNet allOpts [bookOrder] emptyWorld)) =
     [''https://dl/a.epub''] \<and>
   downloadErrors (snd (downloadBundles plainLibs failingNet allOpts [bookOrder] emptyWorld)) =
     [\<lparr>webUrl = Some ''https://dl/a.epub'', filePath = ''dl/Books/A Book.epub'',
       errStatus = 404, errStatusText = ''Not Found''\<rparr>] \<and>
   files (snd (downloadBundles plainLibs failingNet allOpts [bookOrder] emptyWorld))
     ''dl/Books/A Book.pdf'' = None \<and>
   Done \<notin> set (console (snd (downloadBundles plainLibs failingNet allOpts [bookOrder] emptyWorld)))"
  by (simp add: downloadBundles_def demo_resolve_all [unfolded allOpts_def] failingNet_def
      materializer_defs example_defs normalize_examples lower_examples Let_def
      del: resolveBundles.simps)

text \<open>
  Claim C2 says that every failed transfer appends a download error and leaves no file at
  the destination. The code does not do so. When the body of a successful response breaks
  after some bytes, the \<^verbatim>\<open>catch\<close> block fails on the name \<^verbatim>\<open>response\<close> before the error
  is recorded and before the file is removed: no error is appended and the partial file
  stays. When the response is a 404 and an outdated file exists, the error is recorded and
  the file removed, but the code goes on to \<^verbatim>\<open>downloadFile\<close> and writes the body of the
  404 response to the destination.
\<close>

theorem failed_transfer_leaves_file:
  "fst (downloadBook plainLibs brokenNet allOpts ''Books'' '' A Book '' epubVariant emptyWorld) =
     Inl (ReferenceError ''response is not defined'') \<and>
   downloadErrors (snd (downloadBook plainLibs brokenNet allOpts ''Books'' '' A Book '' epubVariant
     emptyWorld)) = [] \<and>
   files (snd (downloadBook plainLibs brokenNet allOpts ''Books'' '' A Book '' epubVariant emptyWorld))
     ''dl/Books/A Book.epub'' = Some ''ep'' \<and>
   fst (downloadBook plainLibs failingNet allOpts ''Books'' '' A Book '' epubVariant oldWorld) =
     Inr False \<and>
   files (snd (downloadBook plainLibs failingNet allOpts ''Books'' '' A Book '' epubVariant oldWorld))
     ''dl/Books/A Book.epub'' = Some ''gone''"
  by (simp add: failingNet_def brokenNet_def oldWorld_def
      materializer_defs example_defs normalize_examples lower_examples Let_def)

text \<open>
  Claim C7 says that a format is reported as a configuration error exactly when it is
  outside the allowed set. The code reports an error for a run whose format is inside
  the set: with a configuration file that has no format, the first check of \<^const>\<open>main\<close>
  fails before the command line is read, although the command line asks for \<open>epub\<close> and
  the resolved format is \<open>epub\<close>.
\<close>

theorem valid_format_rejected:
  "format (resolvedOptions bareConfig epubArgs) = ''epub'' \<and>
   ''epub'' \<in> set ALLOWED_FORMATS \<and>
   main L nt a select bareConfig epubArgs session w = (HelpExit, say InvalidFormatProvided w)"
  by (simp add: main_def resolvedOptions_def bareConfig_def epubArgs_def allowed_formats
      SUPPORTED_FORMATS_def)

end
